theory Spec2Isabelle
  imports Complex_Main
begin

section \<open>The card appraisal workflow (component \<open>CardAppraisalApp\<close>)\<close>

text \<open>
  A shallow embedding of the React component \<open>CardAppraisalApp\<close>: its state hooks are the
  fields of one record, each handler is a function from the state before the event to the
  state after it, and the effects a handler has outside the component (toasts, object URLs
  of the browser, the \<open>fetch\<close> request, the \<open>FileReader\<close>) are fields of the same
  record, so that every effect is visible in the result.
\<close>

subsection \<open>Data\<close>

text \<open>The keys of \<open>steps\<close>; \<open>key_name\<close> gives the string each one is in the source.\<close>

datatype step_key = Front | Back | TopLeft | BottomRight

fun key_name :: "step_key \<Rightarrow> string" where
  "key_name Front = ''front''"
| "key_name Back = ''back''"
| "key_name TopLeft = ''topLeft''"
| "key_name BottomRight = ''bottomRight''"

text \<open>
  A JavaScript number. \<open>Some q\<close> is the finite number \<open>q\<close> (doubles are idealised as
  rationals); \<open>None\<close> stands for every value that is not finite (\<open>NaN\<close>, \<open>Infinity\<close>),
  which is also what arithmetic on \<open>undefined\<close> gives.
\<close>

type_synonym num = "rat option"

definition js_div :: "num \<Rightarrow> num \<Rightarrow> num" where
  "js_div a b =
     (case (a, b) of
        (Some p, Some q) \<Rightarrow> (if q = 0 then None else Some (p / q))
      | _ \<Rightarrow> None)"

definition js_mul :: "num \<Rightarrow> num \<Rightarrow> num" where
  "js_mul a b = (case (a, b) of (Some p, Some q) \<Rightarrow> Some (p * q) | _ \<Rightarrow> None)"

text \<open>The type \<open>Crop\<close> of react-image-crop: every field is optional.\<close>

datatype crop_unit = Px | Percent

record Crop =
  crop_unit :: "crop_unit option"
  crop_x :: num
  crop_y :: num
  crop_width :: num
  crop_height :: num
  crop_aspect :: num

text \<open>The \<open>img\<close> element held by \<open>imageRef\<close>: its native and its displayed size.\<close>

record html_image =
  naturalWidth :: nat
  naturalHeight :: nat
  img_width :: nat
  img_height :: nat

text \<open>
  One call of \<open>ctx.drawImage\<close> with nine arguments: the image, the source rectangle
  (in the image's native pixels) and the destination rectangle (in canvas pixels).
\<close>

record draw_image =
  d_image :: html_image
  d_sx :: rat
  d_sy :: rat
  d_sw :: rat
  d_sh :: rat
  d_dx :: rat
  d_dy :: rat
  d_dw :: rat
  d_dh :: rat

record canvas =
  canvas_width :: nat
  canvas_height :: nat
  painted :: "draw_image option"

text \<open>A blob made by \<open>canvas.toBlob\<close>: the canvas's bitmap, encoded.\<close>

record blob =
  blob_width :: nat
  blob_height :: nat
  blob_type :: string
  blob_painted :: "draw_image option"

datatype content = Bytes "nat list" | Pixels blob

record File =
  file_name :: string
  file_type :: string
  file_content :: content

type_synonym url = nat

record UploadedImage =
  file' :: File
  preview :: url

record grades =
  centering :: rat
  edges :: rat
  corners :: rat
  surface :: rat

record AppraisalResult =
  cardName :: string
  grades :: grades
  edition :: string
  setname :: string
  overallGrade :: rat
  estimatedValue :: rat

text \<open>
  A toast. The description is a template literal: text, and numbers the source
  interpolates (\<open>${data.overallGrade}\<close>), kept as numbers.
\<close>

datatype variant = Default | Destructive

datatype part = Txt string | Number rat

record toast =
  title :: string
  description :: "part list"
  variant :: variant

text \<open>The \<open>FormData\<close> of the appraisal request, one file per field name.\<close>

record form_data =
  fd_front :: File
  fd_back :: File
  fd_topLeft :: File
  fd_bottomRight :: File

record request =
  req_url :: string
  req_method :: string
  req_body :: form_data

text \<open>
  How a \<open>fetch\<close> settles: the promise rejects (\<open>NetworkError\<close>), or a response arrives
  with its \<open>ok\<close> flag and what \<open>response.json()\<close> gives (\<open>None\<close> when it rejects).
\<close>

datatype outcome = NetworkError | Response bool "AppraisalResult option"

text \<open>
  The component's state (the \<open>useState\<close> and \<open>useRef\<close> hooks, in the order of the
  source), followed by the world outside it: the toasts shown, the object URLs that are
  live (created and not revoked) and the next one \<open>URL.createObjectURL\<close> hands out, the
  requests sent, the number of them not yet settled, and the step keys of the
  \<open>FileReader\<close>s that are still reading.
\<close>

record app =
  currentStep :: nat
  images :: "step_key \<Rightarrow> UploadedImage option"
  isLoading :: bool
  result :: "AppraisalResult option"
  showCropper :: bool
  crop :: Crop
  completedCrop :: "Crop option"
  cropImageSrc :: "string option"
  imageRef :: "html_image option"
  pendingStepKey :: "step_key option"
  toasts :: "toast list"
  objectURLs :: "url list"
  nextURL :: url
  requests :: "request list"
  inFlight :: nat
  readers :: "step_key list"

definition initial_crop :: Crop where
  "initial_crop =
     \<lparr>crop_unit = Some Percent, crop_x = None, crop_y = None, crop_width = Some 50,
      crop_height = None, crop_aspect = None\<rparr>"

definition initial :: app where
  "initial =
     \<lparr>currentStep = 0, images = (\<lambda>k. None), isLoading = False, result = None,
      showCropper = False, crop = initial_crop, completedCrop = None,
      cropImageSrc = None, imageRef = None, pendingStepKey = None,
      toasts = [], objectURLs = [], nextURL = 0, requests = [], inFlight = 0,
      readers = []\<rparr>"

subsection \<open>The browser\<close>

definition show_toast :: "toast \<Rightarrow> app \<Rightarrow> app" where
  "show_toast t s = s\<lparr>toasts := toasts s @ [t]\<rparr>"

text \<open>\<open>URL.createObjectURL\<close>: a URL never handed out before, live from now on.\<close>

definition createObjectURL :: "app \<Rightarrow> url \<times> app" where
  "createObjectURL s =
     (nextURL s, s\<lparr>objectURLs := objectURLs s @ [nextURL s], nextURL := nextURL s + 1\<rparr>)"

definition revokeObjectURL :: "url \<Rightarrow> app \<Rightarrow> app" where
  "revokeObjectURL u s = s\<lparr>objectURLs := removeAll u (objectURLs s)\<rparr>"

text \<open>\<open>String.prototype.startsWith\<close>.\<close>

definition startsWith :: "string \<Rightarrow> string \<Rightarrow> bool" where
  "startsWith s p = (take (length p) s = p)"

text \<open>
  Assigning a number to \<open>canvas.width\<close> or \<open>canvas.height\<close>: the conversion to
  \<open>unsigned long\<close> (a value that is not finite gives 0; otherwise truncate towards zero
  and reduce modulo \<open>2^32\<close>), and a value above \<open>2^31 - 1\<close> sets the attribute's
  default (300 for the width, 150 for the height).
\<close>

definition to_unsigned_long :: "num \<Rightarrow> int" where
  "to_unsigned_long n =
     (case n of
        None \<Rightarrow> 0
      | Some q \<Rightarrow> (if 0 \<le> q then \<lfloor>q\<rfloor> else - \<lfloor>- q\<rfloor>) mod 4294967296)"

definition canvas_dim :: "nat \<Rightarrow> num \<Rightarrow> nat" where
  "canvas_dim dflt n =
     (let v = to_unsigned_long n in if v \<le> 2147483647 then nat v else dflt)"

text \<open>
  \<open>ctx.drawImage\<close> returns without drawing when an argument is not finite, or the
  source rectangle has width or height zero.
\<close>

definition drawImage ::
  "html_image \<Rightarrow> num \<Rightarrow> num \<Rightarrow> num \<Rightarrow> num \<Rightarrow> num \<Rightarrow> num \<Rightarrow> num \<Rightarrow> num \<Rightarrow> canvas \<Rightarrow> canvas" where
  "drawImage img sx sy sw sh dx dy dw dh cv =
     (case (sx, sy, sw, sh, dx, dy, dw, dh) of
        (Some a, Some b, Some c, Some d, Some e, Some f, Some g, Some h) \<Rightarrow>
          if c = 0 \<or> d = 0 then cv
          else cv\<lparr>painted := Some \<lparr>d_image = img, d_sx = a, d_sy = b, d_sw = c, d_sh = d,
                                    d_dx = e, d_dy = f, d_dw = g, d_dh = h\<rparr>\<rparr>
      | _ \<Rightarrow> cv)"

text \<open>
  \<open>canvas.toBlob\<close> calls back with \<open>null\<close> when the bitmap has no pixels or the image
  cannot be encoded (\<open>encodes\<close> says whether it can), and with the encoded bitmap otherwise.
\<close>

definition toBlob :: "bool \<Rightarrow> string \<Rightarrow> canvas \<Rightarrow> blob option" where
  "toBlob encodes mime cv =
     (if canvas_width cv = 0 \<or> canvas_height cv = 0 \<or> \<not> encodes then None
      else Some \<lparr>blob_width = canvas_width cv, blob_height = canvas_height cv,
                  blob_type = mime, blob_painted = painted cv\<rparr>)"

subsection \<open>The steps\<close>

record step =
  key :: step_key
  label :: string
  description' :: string

definition steps :: "step list" where
  "steps =
     [\<lparr>key = Front, label = ''Upload Front of Card'',
       description' = ''Take a clear photo of the front side''\<rparr>,
      \<lparr>key = Back, label = ''Upload Back of Card'',
       description' = ''Take a clear photo of the back side''\<rparr>,
      \<lparr>key = TopLeft, label = ''Upload Top-Left Corner'',
       description' = ''Focus on the top-left corner for detail''\<rparr>,
      \<lparr>key = BottomRight, label = ''Upload Bottom-Right Corner'',
       description' = ''Focus on the bottom-right corner for detail''\<rparr>]"

text \<open>
  \<open>steps[currentStep]\<close>. Out of range it is \<open>undefined\<close>, and reading \<open>.key\<close> of it
  throws while the component renders: \<open>None\<close>.
\<close>

definition currentStepData :: "app \<Rightarrow> step option" where
  "currentStepData s =
     (if currentStep s < length steps then Some (steps ! currentStep s) else None)"

definition currentStepKey :: "app \<Rightarrow> step_key option" where
  "currentStepKey s = map_option key (currentStepData s)"

definition isCurrentStepComplete :: "app \<Rightarrow> bool" where
  "isCurrentStepComplete s =
     (case currentStepKey s of None \<Rightarrow> False | Some k \<Rightarrow> images s k \<noteq> None)"

definition isLastStep :: "app \<Rightarrow> bool" where
  "isLastStep s = (currentStep s = length steps - 1)"

subsection \<open>The handlers\<close>

definition invalid_file_toast :: toast where
  "invalid_file_toast =
     \<lparr>title = ''Invalid file'', description = [Txt ''Please select an image file.''],
      variant = Destructive\<rparr>"

text \<open>
  \<open>handleFileSelect\<close>: \<open>fo\<close> is \<open>event.target.files?.[0]\<close>. A file that passes starts a
  \<open>FileReader\<close>, whose \<open>onload\<close> (\<open>reader_onload\<close>) runs later with the step key it
  closed over and the data URL read (\<open>reader.result\<close>).
\<close>

definition handleFileSelect :: "step_key \<Rightarrow> File option \<Rightarrow> app \<Rightarrow> app" where
  "handleFileSelect stepKey fo s =
     (case fo of
        None \<Rightarrow> show_toast invalid_file_toast s
      | Some f \<Rightarrow>
          if \<not> startsWith (file_type f) ''image/'' then show_toast invalid_file_toast s
          else s\<lparr>readers := readers s @ [stepKey]\<rparr>)"

definition reader_onload :: "step_key \<Rightarrow> string \<Rightarrow> app \<Rightarrow> app" where
  "reader_onload stepKey res s =
     s\<lparr>cropImageSrc := Some res, pendingStepKey := Some stepKey, showCropper := True\<rparr>"

definition onImageLoaded :: "html_image \<Rightarrow> app \<Rightarrow> app" where
  "onImageLoaded img s = s\<lparr>imageRef := Some img\<rparr>"

text \<open>
  \<open>handleCropDone\<close> up to the call of \<open>canvas.toBlob\<close>: the canvas it has painted and the
  step key the callback closes over, or \<open>None\<close> where it returns early. \<open>has_ctx\<close> says
  whether \<open>getContext('2d')\<close> gives a context.
\<close>

definition crop_canvas :: "bool \<Rightarrow> app \<Rightarrow> (step_key \<times> canvas) option" where
  "crop_canvas has_ctx s =
     (case (completedCrop s, imageRef s, pendingStepKey s) of
        (Some c, Some img, Some k) \<Rightarrow>
          (let scaleX = js_div (Some (of_nat (naturalWidth img))) (Some (of_nat (img_width img)));
               scaleY = js_div (Some (of_nat (naturalHeight img))) (Some (of_nat (img_height img)));
               cv = \<lparr>canvas_width = canvas_dim 300 (crop_width c),
                     canvas_height = canvas_dim 150 (crop_height c),
                     painted = None\<rparr>
           in if \<not> has_ctx then None
              else Some (k,
                drawImage img
                  (js_mul (crop_x c) scaleX) (js_mul (crop_y c) scaleY)
                  (js_mul (crop_width c) scaleX) (js_mul (crop_height c) scaleY)
                  (Some 0) (Some 0) (crop_width c) (crop_height c) cv))
      | _ \<Rightarrow> None)"

definition cropped_toast :: "step_key \<Rightarrow> toast" where
  "cropped_toast k =
     \<lparr>title = ''Image cropped'',
      description = [Txt (key_name k), Txt '' image cropped successfully.''],
      variant = Default\<rparr>"

text \<open>The callback of \<open>canvas.toBlob\<close>.\<close>

definition toBlob_callback :: "step_key \<Rightarrow> blob option \<Rightarrow> app \<Rightarrow> app" where
  "toBlob_callback k bo s =
     (case bo of
        None \<Rightarrow> s
      | Some b \<Rightarrow>
          (let (u, s1) = createObjectURL s;
               cropped = \<lparr>file_name = ''cropped.jpg'', file_type = ''image/jpeg'',
                          file_content = Pixels b\<rparr>;
               s2 = s1\<lparr>images := (images s1)(k \<mapsto> \<lparr>file' = cropped, preview = u\<rparr>)\<rparr>;
               s3 = s2\<lparr>showCropper := False, cropImageSrc := None, pendingStepKey := None\<rparr>
           in show_toast (cropped_toast k) s3))"

text \<open>\<open>handleCropDone\<close>, with the callback run as soon as the blob is there.\<close>

definition handleCropDone :: "bool \<Rightarrow> bool \<Rightarrow> app \<Rightarrow> app" where
  "handleCropDone has_ctx encodes s =
     (case crop_canvas has_ctx s of
        None \<Rightarrow> s
      | Some (k, cv) \<Rightarrow> toBlob_callback k (toBlob encodes ''image/jpeg'' cv) s)"

definition allImagesUploaded :: "app \<Rightarrow> bool" where
  "allImagesUploaded s =
     (images s Front \<noteq> None \<and> images s Back \<noteq> None \<and>
      images s TopLeft \<noteq> None \<and> images s BottomRight \<noteq> None)"

text \<open>
  \<open>handleAppraise\<close> up to the \<open>await\<close> of \<open>fetch\<close>: the request is sent. The guard
  \<open>if (!allImagesUploaded()) return\<close> and the four reads \<open>images.front!.file\<close>, \<dots> are
  the one case distinction here. What follows the \<open>await\<close> is \<open>appraise_settled\<close>.
\<close>

definition handleAppraise :: "app \<Rightarrow> app" where
  "handleAppraise s =
     (case (images s Front, images s Back, images s TopLeft, images s BottomRight) of
        (Some fr, Some bk, Some tlc, Some brc) \<Rightarrow>
          s\<lparr>isLoading := True, result := None,
            requests := requests s @
              [\<lparr>req_url = ''http://127.0.0.1:8000/appraise'', req_method = ''POST'',
                req_body = \<lparr>fd_front = file' fr, fd_back = file' bk, fd_topLeft = file' tlc,
                             fd_bottomRight = file' brc\<rparr>\<rparr>],
            inFlight := inFlight s + 1\<rparr>
      | _ \<Rightarrow> s)"

definition complete_toast :: "AppraisalResult \<Rightarrow> toast" where
  "complete_toast d =
     \<lparr>title = ''Appraisal complete!'',
      description = [Txt ''Your card has been appraised. Overall grade: '',
                     Number (overallGrade d)],
      variant = Default\<rparr>"

definition failed_toast :: toast where
  "failed_toast =
     \<lparr>title = ''Appraisal failed'',
      description = [Txt ''There was an error processing your request. Please try again.''],
      variant = Destructive\<rparr>"

text \<open>
  The rest of \<open>handleAppraise\<close>, run when the \<open>fetch\<close> settles: the \<open>try\<close> body after the
  \<open>await\<close>, the \<open>catch\<close> for a rejected \<open>fetch\<close>, a response that is not \<open>ok\<close> or a
  body that is not JSON, and the \<open>finally\<close>. A body that is JSON is taken to be an
  \<open>AppraisalResult\<close>, as the source's type annotation takes it. The \<open>console.error\<close> of
  the \<open>catch\<close> is not modelled.
\<close>

definition appraise_settled :: "outcome \<Rightarrow> app \<Rightarrow> app" where
  "appraise_settled out s =
     (let s1 =
        (case out of
           Response True (Some d) \<Rightarrow> show_toast (complete_toast d) (s\<lparr>result := Some d\<rparr>)
         | _ \<Rightarrow> show_toast failed_toast s)
      in s1\<lparr>isLoading := False\<rparr>)"

definition all_keys :: "step_key list" where
  "all_keys = [Front, Back, TopLeft, BottomRight]"

text \<open>
  The loop of \<open>handleReset\<close> over \<open>Object.values(images)\<close>: the preview of every image
  held is revoked.
\<close>

fun revoke_previews :: "step_key list \<Rightarrow> (step_key \<Rightarrow> UploadedImage option) \<Rightarrow> app \<Rightarrow> app" where
  "revoke_previews [] imgs s = s"
| "revoke_previews (k # ks) imgs s =
     revoke_previews ks imgs
       (case imgs k of None \<Rightarrow> s | Some im \<Rightarrow> revokeObjectURL (preview im) s)"

definition reset_toast :: toast where
  "reset_toast =
     \<lparr>title = ''Form reset'', description = [Txt ''You can now start a new appraisal.''],
      variant = Default\<rparr>"

definition handleReset :: "app \<Rightarrow> app" where
  "handleReset s =
     (let s1 = revoke_previews all_keys (images s) s;
          s2 = s1\<lparr>images := (\<lambda>k. None), result := None, isLoading := False,
                  currentStep := 0\<rparr>
      in show_toast reset_toast s2)"

definition handleNext :: "app \<Rightarrow> app" where
  "handleNext s =
     (if currentStep s < length steps - 1 then s\<lparr>currentStep := currentStep s + 1\<rparr> else s)"

definition handlePrevious :: "app \<Rightarrow> app" where
  "handlePrevious s =
     (if currentStep s > 0 then s\<lparr>currentStep := currentStep s - 1\<rparr> else s)"

subsection \<open>The rendered page\<close>

text \<open>
  A handler runs when the user acts on the element it is attached to, and only if the
  render of the current state has that element and has not disabled it. Each function
  below is one such element with its handler, as the JSX gives them. Nothing is
  rendered when the render throws (\<open>currentStepData\<close> is \<open>None\<close>).
\<close>

definition renders :: "app \<Rightarrow> bool" where
  "renders s = (currentStepData s \<noteq> None)"

text \<open>\<open>showCropper && cropImageSrc\<close>: the empty string is falsy.\<close>

definition cropper_open :: "app \<Rightarrow> bool" where
  "cropper_open s =
     (showCropper s \<and> (case cropImageSrc s of None \<Rightarrow> False | Some src \<Rightarrow> src \<noteq> []))"

text \<open>The file input: \<open>onChange={(e) => handleFileSelect(currentStepData.key, e)}\<close>.\<close>

definition input_onChange :: "File option \<Rightarrow> app \<Rightarrow> app" where
  "input_onChange fo s =
     (case currentStepData s of None \<Rightarrow> s | Some d \<Rightarrow> handleFileSelect (key d) fo s)"

text \<open>Inside the cropper modal, rendered when \<open>cropper_open\<close>.\<close>

definition img_onLoad :: "html_image \<Rightarrow> app \<Rightarrow> app" where
  "img_onLoad img s = (if renders s \<and> cropper_open s then onImageLoaded img s else s)"

definition crop_onChange :: "Crop \<Rightarrow> app \<Rightarrow> app" where
  "crop_onChange newCrop s = (if renders s \<and> cropper_open s then s\<lparr>crop := newCrop\<rparr> else s)"

definition crop_onComplete :: "Crop \<Rightarrow> app \<Rightarrow> app" where
  "crop_onComplete c s =
     (if renders s \<and> cropper_open s then s\<lparr>completedCrop := Some c\<rparr> else s)"

text \<open>The Cancel button's handler: \<open>() => setShowCropper(false)\<close>.\<close>

definition cancel_onClick :: "app \<Rightarrow> app" where
  "cancel_onClick s = s\<lparr>showCropper := False\<rparr>"

definition click_cancel :: "app \<Rightarrow> app" where
  "click_cancel s = (if renders s \<and> cropper_open s then cancel_onClick s else s)"

definition click_done :: "bool \<Rightarrow> bool \<Rightarrow> app \<Rightarrow> app" where
  "click_done has_ctx encodes s =
     (if renders s \<and> cropper_open s then handleCropDone has_ctx encodes s else s)"

text \<open>Previous: \<open>disabled={currentStep === 0}\<close>.\<close>

definition click_previous :: "app \<Rightarrow> app" where
  "click_previous s = (if renders s \<and> \<not> currentStep s = 0 then handlePrevious s else s)"

text \<open>Next: \<open>disabled={!isCurrentStepComplete || isLastStep}\<close>.\<close>

definition click_next :: "app \<Rightarrow> app" where
  "click_next s =
     (if renders s \<and> \<not> (\<not> isCurrentStepComplete s \<or> isLastStep s) then handleNext s else s)"

text \<open>Appraise Card: rendered when \<open>allImagesUploaded()\<close>, \<open>disabled={isLoading}\<close>.\<close>

definition click_appraise :: "app \<Rightarrow> app" where
  "click_appraise s =
     (if renders s \<and> allImagesUploaded s \<and> \<not> isLoading s then handleAppraise s else s)"

text \<open>Start New Appraisal: rendered when \<open>allImagesUploaded() || result\<close>.\<close>

definition click_reset :: "app \<Rightarrow> app" where
  "click_reset s =
     (if renders s \<and> (allImagesUploaded s \<or> result s \<noteq> None) then handleReset s else s)"

subsection \<open>Runs\<close>

text \<open>
  What can happen to the component: the user's actions on the page, and the callbacks
  of the browser (a \<open>FileReader\<close> has loaded, the \<open>fetch\<close> has settled). A callback
  runs only if what it waits for was started: \<open>ReaderOnload\<close> is the oldest reader still
  reading, \<open>FetchSettled\<close> one of the requests in flight. Done runs \<open>handleCropDone\<close>
  together with the callback of its \<open>toBlob\<close>.
\<close>

datatype event =
    FileChange "File option"
  | ReaderOnload string
  | ImgOnLoad html_image
  | CropChange Crop
  | CropComplete Crop
  | ClickCancel
  | ClickDone bool bool
  | ClickPrevious
  | ClickNext
  | ClickAppraise
  | FetchSettled outcome
  | ClickReset

fun step_event :: "event \<Rightarrow> app \<Rightarrow> app" where
  "step_event (FileChange fo) s = input_onChange fo s"
| "step_event (ReaderOnload res) s =
     (case readers s of
        [] \<Rightarrow> s
      | stepKey # rest \<Rightarrow> reader_onload stepKey res (s\<lparr>readers := rest\<rparr>))"
| "step_event (ImgOnLoad img) s = img_onLoad img s"
| "step_event (CropChange c) s = crop_onChange c s"
| "step_event (CropComplete c) s = crop_onComplete c s"
| "step_event ClickCancel s = click_cancel s"
| "step_event (ClickDone has_ctx encodes) s = click_done has_ctx encodes s"
| "step_event ClickPrevious s = click_previous s"
| "step_event ClickNext s = click_next s"
| "step_event ClickAppraise s = click_appraise s"
| "step_event (FetchSettled out) s =
     (if 0 < inFlight s then appraise_settled out (s\<lparr>inFlight := inFlight s - 1\<rparr>) else s)"
| "step_event ClickReset s = click_reset s"

fun run :: "event list \<Rightarrow> app \<Rightarrow> app" where
  "run [] s = s"
| "run (e # es) s = run es (step_event e s)"

text \<open>The slots that hold an image, and how many there are.\<close>

definition occupied :: "app \<Rightarrow> step_key list" where
  "occupied s = filter (\<lambda>k. images s k \<noteq> None) all_keys"

text \<open>The blob a slot's image was made from.\<close>

definition slot_blob :: "app \<Rightarrow> step_key \<Rightarrow> blob option" where
  "slot_blob s k =
     (case images s k of
        None \<Rightarrow> None
      | Some im \<Rightarrow> (case file_content (file' im) of Pixels b \<Rightarrow> Some b | Bytes bs \<Rightarrow> None))"

subsection \<open>Example inputs\<close>

text \<open>
  A photo from the camera, a file that is not an image, an image of 200 by 400 pixels
  displayed at 100 by 200, and the selection that covers all of it as displayed.
\<close>

definition photo :: File where
  "photo =
     \<lparr>file_name = ''IMG_0001.jpg'', file_type = ''image/jpeg'',
      file_content = Bytes [255, 216, 255]\<rparr>"

definition document :: File where
  "document =
     \<lparr>file_name = ''card.pdf'', file_type = ''application/pdf'',
      file_content = Bytes [37, 80, 68, 70]\<rparr>"

definition shown :: html_image where
  "shown = \<lparr>naturalWidth = 200, naturalHeight = 400, img_width = 100, img_height = 200\<rparr>"

definition full_selection :: Crop where
  "full_selection =
     \<lparr>crop_unit = Some Px, crop_x = Some 0, crop_y = Some 0, crop_width = Some 100,
      crop_height = Some 200, crop_aspect = None\<rparr>"

text \<open>
  The user picks the photo for the current step and selects all of it (\<open>select_photo\<close>),
  then presses Done (\<open>capture\<close>).
\<close>

definition select_photo :: "event list" where
  "select_photo =
     [FileChange (Some photo), ReaderOnload ''data:image/jpeg;base64,/9j/'', ImgOnLoad shown,
      CropComplete full_selection]"

definition capture :: "event list" where
  "capture = select_photo @ [ClickDone True True]"

definition ready :: app where
  "ready = run select_photo initial"

text \<open>The front photo is taken, and then taken again (Change Photo).\<close>

definition recaptured :: app where
  "recaptured = run (capture @ capture) initial"

text \<open>All four slots are filled, the front one twice.\<close>

definition fill_all :: "event list" where
  "fill_all =
     capture @ capture @ [ClickNext] @ capture @ [ClickNext] @ capture @ [ClickNext] @ capture"

definition filled :: app where
  "filled = run fill_all initial"

definition sample_result :: AppraisalResult where
  "sample_result =
     \<lparr>cardName = ''Charizard'',
      grades = \<lparr>centering = 8, edges = 9, corners = 8, surface = 9\<rparr>,
      edition = ''1st'', setname = ''Base Set'', overallGrade = 17 / 2, estimatedValue = 42\<rparr>"

text \<open>The filled workflow is submitted and the service answers with a result.\<close>

definition appraised :: app where
  "appraised = run [ClickAppraise, FetchSettled (Response True (Some sample_result))] filled"

text \<open>
  A whole workflow in which the front photo was retaken: the slots are filled, the set is
  appraised, and the user starts a new appraisal.
\<close>

definition workflow_with_retake :: "event list" where
  "workflow_with_retake =
     fill_all @ [ClickAppraise, FetchSettled (Response True (Some sample_result)), ClickReset]"




section \<open>Properties\<close>

subsection \<open>Unfolding and evaluation\<close>

lemmas handler_defs =
  handleFileSelect_def reader_onload_def onImageLoaded_def crop_canvas_def toBlob_callback_def
  handleCropDone_def allImagesUploaded_def handleAppraise_def appraise_settled_def
  handleReset_def handleNext_def handlePrevious_def show_toast_def createObjectURL_def
  revokeObjectURL_def startsWith_def canvas_dim_def to_unsigned_long_def drawImage_def
  toBlob_def js_div_def js_mul_def all_keys_def

lemmas page_defs =
  renders_def cropper_open_def input_onChange_def img_onLoad_def crop_onChange_def
  crop_onComplete_def cancel_onClick_def click_cancel_def click_done_def click_previous_def
  click_next_def click_appraise_def click_reset_def currentStepData_def currentStepKey_def
  isCurrentStepComplete_def isLastStep_def steps_def

lemmas example_defs =
  photo_def document_def shown_def full_selection_def select_photo_def capture_def
  initial_def initial_crop_def

lemma ready_eq:
  "ready =
     initial\<lparr>showCropper := True, completedCrop := Some full_selection,
       cropImageSrc := Some ''data:image/jpeg;base64,/9j/'', imageRef := Some shown,
       pendingStepKey := Some Front\<rparr>"
  by (simp add: ready_def handler_defs page_defs example_defs Let_def)

lemma filled_facts:
  "renders filled" "allImagesUploaded filled" "\<not> isLoading filled" "result filled = None"
  "requests filled = []" "currentStep filled = 3" "objectURLs filled = [0, 1, 2, 3, 4]"
  "occupied filled = [Front, Back, TopLeft, BottomRight]"
  by (simp_all add: filled_def fill_all_def occupied_def handler_defs page_defs example_defs
      Let_def)

subsection \<open>The handlers, one at a time\<close>

lemma renders_iff: "renders s \<longleftrightarrow> currentStep s < 4"
  by (simp add: renders_def currentStepData_def steps_def)

lemma canvas_dim_in_range:
  assumes "1 \<le> w" and "w < 2147483648"
  shows "canvas_dim d (Some w) = nat \<lfloor>w\<rfloor>" and "0 < nat \<lfloor>w\<rfloor>"
proof -
  have lo: "1 \<le> \<lfloor>w\<rfloor>" using assms(1) by (simp add: le_floor_iff)
  have hi: "\<lfloor>w\<rfloor> < 2147483648" using assms(2) by (simp add: floor_less_iff)
  from lo hi show "canvas_dim d (Some w) = nat \<lfloor>w\<rfloor>"
    using assms(1) by (simp add: canvas_dim_def to_unsigned_long_def Let_def)
  from lo show "0 < nat \<lfloor>w\<rfloor>" by simp
qed

lemma drawImage_size:
  "canvas_width (drawImage img a b c d e f g h cv) = canvas_width cv"
  "canvas_height (drawImage img a b c d e f g h cv) = canvas_height cv"
  by (simp_all add: drawImage_def split: option.splits)

lemma drawImage_finite:
  assumes "c \<noteq> 0" and "d \<noteq> 0"
  shows "painted (drawImage img (Some a) (Some b) (Some c) (Some d) (Some e) (Some f) (Some g) (Some h) cv) =
     Some \<lparr>d_image = img, d_sx = a, d_sy = b, d_sw = c, d_sh = d,
           d_dx = e, d_dy = f, d_dw = g, d_dh = h\<rparr>"
  using assms by (simp add: drawImage_def)

lemma handleCropDone_blob:
  assumes "crop_canvas True s = Some (k, cv)" and "0 < canvas_width cv" and "0 < canvas_height cv"
  shows "slot_blob (handleCropDone True True s) k =
           Some \<lparr>blob_width = canvas_width cv, blob_height = canvas_height cv,
                 blob_type = ''image/jpeg'', blob_painted = painted cv\<rparr>"
  using assms
  by (simp add: slot_blob_def handleCropDone_def toBlob_callback_def toBlob_def
        createObjectURL_def show_toast_def)

text \<open>
  The callback of \<open>toBlob\<close> creates an object URL and revokes none, whatever the slot
  holds.
\<close>

lemma toBlob_callback_urls:
  "objectURLs (toBlob_callback k (Some b) s) = objectURLs s @ [nextURL s]"
  by (simp add: toBlob_callback_def createObjectURL_def show_toast_def)

lemma appraise_settled_failure:
  assumes "out = NetworkError \<or> out = Response False body \<or> out = Response True None"
  shows "appraise_settled out s = s\<lparr>toasts := toasts s @ [failed_toast], isLoading := False\<rparr>"
  using assms by (auto simp: appraise_settled_def show_toast_def)

lemma handleAppraise_sends:
  assumes "allImagesUploaded s"
  shows "length (requests (handleAppraise s)) = length (requests s) + 1"
    and "isLoading (handleAppraise s)"
    and "result (handleAppraise s) = None"
    and "inFlight (handleAppraise s) = inFlight s + 1"
proof -
  from assms obtain fr bk tlc brc where
    "images s Front = Some fr" "images s Back = Some bk"
    "images s TopLeft = Some tlc" "images s BottomRight = Some brc"
    by (auto simp: allImagesUploaded_def)
  then show "length (requests (handleAppraise s)) = length (requests s) + 1"
    and "isLoading (handleAppraise s)"
    and "result (handleAppraise s) = None"
    and "inFlight (handleAppraise s) = inFlight s + 1"
    by (simp_all add: handleAppraise_def)
qed

lemma handleAppraise_frame:
  "images (handleAppraise s) = images s" "currentStep (handleAppraise s) = currentStep s"
  by (simp_all add: handleAppraise_def split: option.splits)

lemma handleAppraise_requests_cong:
  assumes "images t = images s" and "requests t = requests s"
  shows "requests (handleAppraise t) = requests (handleAppraise s)"
  using assms by (simp add: handleAppraise_def split: option.splits)

lemma handleReset_clears:
  "images (handleReset s) = (\<lambda>k. None)" "currentStep (handleReset s) = 0"
  "result (handleReset s) = None" "\<not> isLoading (handleReset s)"
  by (simp_all add: handleReset_def show_toast_def Let_def)

text \<open>
  \<open>handleReset\<close> revokes the preview of every image a slot holds, and no other URL.
\<close>

lemma revoke_previews_urls:
  "set (objectURLs (revoke_previews ks imgs s)) =
     set (objectURLs s) - {preview im | k im. k \<in> set ks \<and> imgs k = Some im}"
proof (induction ks imgs s rule: revoke_previews.induct)
  case (1 imgs s)
  then show ?case by simp
next
  case (2 k ks imgs s)
  show ?case
  proof (cases "imgs k")
    case None
    with 2 show ?thesis by auto
  next
    case (Some im)
    with 2 show ?thesis by (auto simp: revokeObjectURL_def)
  qed
qed

lemma handleReset_revokes_held:
  assumes "images s k = Some im"
  shows "preview im \<notin> set (objectURLs (handleReset s))"
proof -
  have "k \<in> set all_keys" by (cases k) (simp_all add: all_keys_def)
  with assms show ?thesis
    by (auto simp: handleReset_def show_toast_def Let_def revoke_previews_urls)
qed

text \<open>
  Start New Appraisal is rendered while a submission is loading (the slots are filled),
  and \<open>handleReset\<close> then ends the loading state without settling the request.
\<close>

lemma reset_while_loading:
  assumes "renders s" and "allImagesUploaded s" and "isLoading s"
  shows "\<not> isLoading (click_reset s)" and "inFlight (click_reset s) = inFlight s"
proof -
  have eq: "click_reset s = handleReset s"
    using assms(1,2) by (simp add: click_reset_def)
  have frame: "inFlight (revoke_previews ks imgs t) = inFlight t" for ks imgs t
    by (induction ks imgs t rule: revoke_previews.induct)
      (simp_all add: revokeObjectURL_def split: option.splits)
  show "\<not> isLoading (click_reset s)"
    by (simp add: eq handleReset_clears)
  show "inFlight (click_reset s) = inFlight s"
    by (simp add: eq handleReset_def show_toast_def Let_def frame)
qed

lemma submitting_facts:
  "click_appraise filled = handleAppraise filled"
  "renders (click_appraise filled)" "allImagesUploaded (click_appraise filled)"
  "isLoading (click_appraise filled)" "length (requests (click_appraise filled)) = 1"
  "currentStep (click_appraise filled) = 3"
proof -
  show eq: "click_appraise filled = handleAppraise filled"
    using filled_facts by (simp add: click_appraise_def)
  show "renders (click_appraise filled)"
    using filled_facts(1) by (simp add: eq renders_iff handleAppraise_frame)
  show "allImagesUploaded (click_appraise filled)"
    using filled_facts(2) by (simp add: eq allImagesUploaded_def handleAppraise_frame)
  show "isLoading (click_appraise filled)"
    using handleAppraise_sends(2) [OF filled_facts(2)] by (simp add: eq)
  show "length (requests (click_appraise filled)) = 1"
    using handleAppraise_sends(1) [OF filled_facts(2)] filled_facts(5) by (simp add: eq)
  show "currentStep (click_appraise filled) = 3"
    using filled_facts(6) by (simp add: eq handleAppraise_frame)
qed

lemma appraised_facts:
  "renders appraised" "allImagesUploaded appraised" "\<not> isLoading appraised"
  "result appraised = Some sample_result"
proof -
  have "0 < inFlight (click_appraise filled)"
    using handleAppraise_sends(4) [OF filled_facts(2)] by (simp add: submitting_facts(1))
  then have eq: "appraised =
      appraise_settled (Response True (Some sample_result))
        ((click_appraise filled)\<lparr>inFlight := inFlight (click_appraise filled) - 1\<rparr>)"
    by (simp add: appraised_def)
  show "renders appraised"
    using submitting_facts(2) by (simp add: eq renders_iff appraise_settled_def show_toast_def)
  show "allImagesUploaded appraised"
    using submitting_facts(3)
    by (simp add: eq allImagesUploaded_def appraise_settled_def show_toast_def)
  show "\<not> isLoading appraised"
    by (simp add: eq appraise_settled_def show_toast_def)
  show "result appraised = Some sample_result"
    by (simp add: eq appraise_settled_def show_toast_def)
qed





subsection \<open>The claims\<close>

text \<open>
  Claim C1, as stated, fails. The selection covers all of an image of 200 by 400 pixels
  that is displayed at 100 by 200; Done stores a blob of 100 by 200 pixels, the displayed
  size, not the native 200 by 400 the claim gives.
\<close>

theorem crop_full_selection_not_native:
  "completedCrop ready = Some full_selection \<and> imageRef ready = Some shown \<and>
   crop_width full_selection = Some (of_nat (img_width shown)) \<and>
   crop_height full_selection = Some (of_nat (img_height shown)) \<and>
   map_option blob_width (slot_blob (handleCropDone True True ready) Front) = Some 100 \<and>
   map_option blob_height (slot_blob (handleCropDone True True ready) Front) = Some 200 \<and>
   naturalWidth shown = 200 \<and> naturalHeight shown = 400 \<and>
   map_option blob_width (slot_blob (handleCropDone True True ready) Front)
     \<noteq> Some (naturalWidth shown) \<and>
   map_option blob_height (slot_blob (handleCropDone True True ready) Front)
     \<noteq> Some (naturalHeight shown)"
  by (simp add: ready_eq slot_blob_def handler_defs example_defs Let_def)

text \<open>
  Claim C1, amended. When a selection of width \<open>w\<close> and height \<open>h\<close> (each at least 1 and
  below \<open>2^31\<close>) is committed for the pending slot, the slot holds a blob whose pixel
  dimensions are \<open>w\<close> and \<open>h\<close> themselves, cut to whole pixels: the selection's size as
  displayed, not scaled. So a selection that covers the whole displayed image gives a
  blob of the displayed size. The scale factors (native size over displayed size) enter
  only the source rectangle that \<open>drawImage\<close> reads from the image: the selection mapped
  into native pixels, drawn onto the destination rectangle \<open>(0, 0, w, h)\<close>.
\<close>

theorem crop_blob_has_selection_size:
  assumes "completedCrop s = Some c" and "imageRef s = Some img" and "pendingStepKey s = Some k"
    and "crop_width c = Some w" and "crop_height c = Some h"
    and "1 \<le> w" and "w < 2147483648" and "1 \<le> h" and "h < 2147483648"
  shows "\<exists>b. slot_blob (handleCropDone True True s) k = Some b \<and>
           blob_width b = nat \<lfloor>w\<rfloor> \<and> blob_height b = nat \<lfloor>h\<rfloor> \<and>
           (w = of_nat (img_width img) \<and> h = of_nat (img_height img) \<longrightarrow>
              blob_width b = img_width img \<and> blob_height b = img_height img) \<and>
           (crop_x c = Some x \<and> crop_y c = Some y \<and> 0 < img_width img \<and> 0 < img_height img \<and>
            0 < naturalWidth img \<and> 0 < naturalHeight img \<longrightarrow>
              blob_painted b =
                Some \<lparr>d_image = img,
                      d_sx = x * (of_nat (naturalWidth img) / of_nat (img_width img)),
                      d_sy = y * (of_nat (naturalHeight img) / of_nat (img_height img)),
                      d_sw = w * (of_nat (naturalWidth img) / of_nat (img_width img)),
                      d_sh = h * (of_nat (naturalHeight img) / of_nat (img_height img)),
                      d_dx = 0, d_dy = 0, d_dw = w, d_dh = h\<rparr>)"
proof -
  define scaleX where
    "scaleX = js_div (Some (of_nat (naturalWidth img))) (Some (of_nat (img_width img)))"
  define scaleY where
    "scaleY = js_div (Some (of_nat (naturalHeight img))) (Some (of_nat (img_height img)))"
  define cv where
    "cv = drawImage img (js_mul (crop_x c) scaleX) (js_mul (crop_y c) scaleY)
            (js_mul (crop_width c) scaleX) (js_mul (crop_height c) scaleY)
            (Some 0) (Some 0) (crop_width c) (crop_height c)
            \<lparr>canvas_width = canvas_dim 300 (crop_width c),
             canvas_height = canvas_dim 150 (crop_height c), painted = None\<rparr>"
  have cc: "crop_canvas True s = Some (k, cv)"
    using assms(1-3) by (simp add: crop_canvas_def cv_def scaleX_def scaleY_def Let_def)
  have cw: "canvas_width cv = nat \<lfloor>w\<rfloor>" and ch: "canvas_height cv = nat \<lfloor>h\<rfloor>"
    using assms(4-9) by (simp_all add: cv_def drawImage_size canvas_dim_in_range)
  have pos: "0 < canvas_width cv" "0 < canvas_height cv"
    using cw ch assms(6-9) by (simp_all add: canvas_dim_in_range)
  let ?b = "\<lparr>blob_width = canvas_width cv, blob_height = canvas_height cv,
              blob_type = ''image/jpeg'', blob_painted = painted cv\<rparr>"
  have blob: "slot_blob (handleCropDone True True s) k = Some ?b"
    using cc pos by (rule handleCropDone_blob)
  have full: "w = of_nat (img_width img) \<and> h = of_nat (img_height img) \<longrightarrow>
                blob_width ?b = img_width img \<and> blob_height ?b = img_height img"
    using cw ch by simp
  have drawn: "crop_x c = Some x \<and> crop_y c = Some y \<and> 0 < img_width img \<and> 0 < img_height img \<and>
      0 < naturalWidth img \<and> 0 < naturalHeight img \<longrightarrow>
     blob_painted ?b =
       Some \<lparr>d_image = img,
             d_sx = x * (of_nat (naturalWidth img) / of_nat (img_width img)),
             d_sy = y * (of_nat (naturalHeight img) / of_nat (img_height img)),
             d_sw = w * (of_nat (naturalWidth img) / of_nat (img_width img)),
             d_sh = h * (of_nat (naturalHeight img) / of_nat (img_height img)),
             d_dx = 0, d_dy = 0, d_dw = w, d_dh = h\<rparr>"
    using assms(4-9)
    by (auto simp add: cv_def scaleX_def scaleY_def js_div_def js_mul_def drawImage_finite)
  show ?thesis
    using blob cw ch full drawn by (intro exI [of _ ?b]) simp
qed

theorem crop_blob_has_selection_size_witness:
  "\<exists>b. slot_blob (handleCropDone True True ready) Front = Some b \<and>
        blob_width b = 100 \<and> blob_height b = 200 \<and>
        blob_width b = img_width shown \<and> blob_height b = img_height shown \<and>
        blob_painted b =
          Some \<lparr>d_image = shown, d_sx = 0, d_sy = 0, d_sw = 200, d_sh = 400,
                d_dx = 0, d_dy = 0, d_dw = 100, d_dh = 200\<rparr>"
  using crop_blob_has_selection_size [of ready full_selection shown Front 100 200 0 0]
  by (auto simp add: ready_eq example_defs)

text \<open>
  Claim C2 (every assignment to an occupied slot releases the previous preview, so the
  live handles are as many as the occupied slots) fails on the code: the callback of
  \<open>toBlob\<close> never calls \<open>URL.revokeObjectURL\<close>. After the front photo is taken twice,
  one slot is occupied, its preview is URL 1, and URLs 0 and 1 are both live.
\<close>

theorem replaced_preview_stays_live:
  "objectURLs recaptured = [0, 1] \<and> occupied recaptured = [Front] \<and>
   map_option preview (images recaptured Front) = Some 1 \<and>
   length (objectURLs recaptured) = 2 \<and> length (occupied recaptured) = 1"
  by (simp add: recaptured_def occupied_def handler_defs page_defs example_defs Let_def)




text \<open>
  Claim C4. A click on Next moves \<open>currentStep\<close> to \<open>currentStep + 1\<close> when the slot of
  the current step holds an image and the step is not the last one (index 3), and changes
  nothing otherwise; in particular it changes nothing when the current slot is unfilled.
\<close>

theorem next_needs_filled_slot:
  "click_next s =
     (if isCurrentStepComplete s \<and> currentStep s < 3 then s\<lparr>currentStep := currentStep s + 1\<rparr>
      else s) \<and>
   (\<forall>k. currentStepKey s = Some k \<and> images s k = None \<longrightarrow> click_next s = s)"
  by (auto simp: click_next_def handleNext_def isLastStep_def renders_def isCurrentStepComplete_def
      currentStepKey_def currentStepData_def steps_def split: if_splits option.splits)

theorem next_needs_filled_slot_witness:
  "currentStepKey initial = Some Front \<and> images initial Front = None \<and>
   click_next initial = initial \<and>
   click_next (run capture initial) = (run capture initial)\<lparr>currentStep := 1\<rparr> \<and>
   click_next filled = filled"
  using next_needs_filled_slot [of initial] next_needs_filled_slot [of "run capture initial"]
    next_needs_filled_slot [of filled] filled_facts
  by (simp add: handler_defs page_defs example_defs Let_def)

text \<open>
  Claim C5, as stated, fails. With the cropper open on the front photo and a selection
  made, Cancel closes the cropper, and the selection, the pending slot and the source
  image are all still held afterwards.
\<close>

theorem cancel_keeps_selection:
  "showCropper ready \<and> \<not> showCropper (click_cancel ready) \<and>
   completedCrop (click_cancel ready) = Some full_selection \<and>
   pendingStepKey (click_cancel ready) = Some Front \<and>
   cropImageSrc (click_cancel ready) = Some ''data:image/jpeg;base64,/9j/''"
  by (simp add: ready_eq page_defs example_defs)

text \<open>
  Claim C5, amended. Cancel closes the crop sub-flow by hiding it, and has no effect on
  the slots, the live object URLs, the step or the result. The selection is not
  discarded when the sub-flow closes: \<open>crop\<close> and \<open>completedCrop\<close> are the same after
  Cancel, and after Done as well.
\<close>

theorem cancel_hides_cropper_only:
  "\<not> cropper_open (cancel_onClick s) \<and>
   images (cancel_onClick s) = images s \<and>
   objectURLs (cancel_onClick s) = objectURLs s \<and>
   currentStep (cancel_onClick s) = currentStep s \<and>
   result (cancel_onClick s) = result s \<and>
   completedCrop (cancel_onClick s) = completedCrop s \<and>
   crop (cancel_onClick s) = crop s \<and>
   completedCrop (handleCropDone has_ctx encodes s) = completedCrop s \<and>
   crop (handleCropDone has_ctx encodes s) = crop s"
  by (simp add: cancel_onClick_def cropper_open_def handleCropDone_def toBlob_callback_def
      createObjectURL_def show_toast_def split: option.splits prod.splits)

text \<open>
  Claim C6. When the \<open>fetch\<close> of a submission is rejected, or its response is not
  \<open>ok\<close>, the state after it holds the same slot images and the same step, is no longer
  loading (the Failed state: no result arrives), and the destructive toast
  ``Appraisal failed \<dots> Please try again.'' has been shown. If the four slots are
  filled, a click on Appraise then sends the request again, with the same files.
\<close>

theorem failed_submission_keeps_slots:
  assumes "out = NetworkError \<or> out = Response False body"
  shows "images (appraise_settled out s) = images s \<and>
         currentStep (appraise_settled out s) = currentStep s \<and>
         \<not> isLoading (appraise_settled out s) \<and>
         result (appraise_settled out s) = result s \<and>
         toasts (appraise_settled out s) = toasts s @ [failed_toast] \<and>
         variant failed_toast = Destructive \<and>
         (renders s \<and> allImagesUploaded s \<longrightarrow>
            requests (click_appraise (appraise_settled out s)) = requests (handleAppraise s) \<and>
            length (requests (handleAppraise s)) = length (requests s) + 1)"
proof -
  let ?t = "s\<lparr>toasts := toasts s @ [failed_toast], isLoading := False\<rparr>"
  have eq: "appraise_settled out s = ?t"
    using assms by (intro appraise_settled_failure [of out body]) blast
  have retry: "requests (click_appraise ?t) = requests (handleAppraise s)"
    if "renders s" and "allImagesUploaded s"
  proof -
    have "renders ?t" and "allImagesUploaded ?t" and "\<not> isLoading ?t"
      using that by (simp_all add: renders_iff allImagesUploaded_def)
    then have "click_appraise ?t = handleAppraise ?t"
      by (simp add: click_appraise_def)
    then show ?thesis using handleAppraise_requests_cong [of ?t s] by simp
  qed
  have sent: "length (requests (handleAppraise s)) = length (requests s) + 1"
    if "allImagesUploaded s"
    using that by (rule handleAppraise_sends)
  show ?thesis
    unfolding eq using retry sent by (simp add: failed_toast_def)
qed

theorem failed_submission_keeps_slots_witness:
  "images (appraise_settled NetworkError (click_appraise filled)) = images (click_appraise filled) \<and>
   currentStep (appraise_settled NetworkError (click_appraise filled)) = 3 \<and>
   \<not> isLoading (appraise_settled NetworkError (click_appraise filled)) \<and>
   toasts (appraise_settled NetworkError (click_appraise filled)) =
     toasts (click_appraise filled) @ [failed_toast] \<and>
   length (requests (click_appraise (appraise_settled NetworkError (click_appraise filled)))) = 2"
  using failed_submission_keeps_slots [of NetworkError undefined "click_appraise filled"]
    submitting_facts
  by simp

text \<open>
  Claim C7. Selecting a file whose type does not start with \<open>image/\<close> shows the
  destructive toast ``Invalid file'' and changes nothing else: the slots, the step and
  the result are the same, the cropper is open exactly if it was before, and no
  \<open>FileReader\<close> is started that could open it later.
\<close>

theorem non_image_rejected:
  assumes "\<not> startsWith (file_type f) ''image/''"
  shows "handleFileSelect k (Some f) s = s\<lparr>toasts := toasts s @ [invalid_file_toast]\<rparr> \<and>
         title invalid_file_toast = ''Invalid file'' \<and>
         variant invalid_file_toast = Destructive \<and>
         images (handleFileSelect k (Some f) s) = images s \<and>
         currentStep (handleFileSelect k (Some f) s) = currentStep s \<and>
         result (handleFileSelect k (Some f) s) = result s \<and>
         cropper_open (handleFileSelect k (Some f) s) = cropper_open s \<and>
         readers (handleFileSelect k (Some f) s) = readers s"
  using assms
  by (simp add: handleFileSelect_def show_toast_def invalid_file_toast_def cropper_open_def)

theorem non_image_rejected_witness:
  "handleFileSelect Front (Some document) initial = initial\<lparr>toasts := [invalid_file_toast]\<rparr> \<and>
   \<not> cropper_open (handleFileSelect Front (Some document) initial) \<and>
   readers (handleFileSelect Front (Some document) initial) = []"
  using non_image_rejected [of document Front initial]
  by (simp add: startsWith_def document_def initial_def cropper_open_def)

text \<open>
  Claim C8 (after reset no preview handle is live) fails on the code, by the defect of
  claim C2: \<open>handleReset\<close> revokes the previews of the images the slots hold, and the
  preview of an image that was replaced is in no slot. After a whole workflow in which the
  front photo was retaken, reset leaves the slots empty, the step 0 and no result, and
  URL 0 still live.
\<close>

theorem reset_leaves_replaced_preview_live:
  "occupied (run workflow_with_retake initial) = [] \<and>
   currentStep (run workflow_with_retake initial) = 0 \<and>
   result (run workflow_with_retake initial) = None \<and>
   objectURLs (run workflow_with_retake initial) = [0]"
  by (simp add: workflow_with_retake_def fill_all_def occupied_def sample_result_def
      handler_defs page_defs example_defs Let_def)

text \<open>
  Claim C9. A submission started from a state that holds a result clears the result, and
  a failure (the \<open>fetch\<close> is rejected, the response is not \<open>ok\<close>, or its body is not
  JSON) does not bring it back: no result is held afterwards.
\<close>

theorem failed_resubmission_drops_result:
  assumes "renders s" and "allImagesUploaded s" and "\<not> isLoading s"
    and "out = NetworkError \<or> out = Response False body \<or> out = Response True None"
  shows "result (click_appraise s) = None \<and>
         result (appraise_settled out (click_appraise s)) = None"
proof -
  have "click_appraise s = handleAppraise s"
    using assms(1-3) by (simp add: click_appraise_def)
  then have cleared: "result (click_appraise s) = None"
    using handleAppraise_sends(3) [OF assms(2)] by simp
  then show ?thesis
    by (simp add: appraise_settled_failure [OF assms(4)])
qed

theorem failed_resubmission_drops_result_witness:
  "result appraised = Some sample_result \<and>
   result (click_appraise appraised) = None \<and>
   result (appraise_settled (Response False None) (click_appraise appraised)) = None"
  using failed_resubmission_drops_result [of appraised "Response False None" None] appraised_facts
  by simp

text \<open>
  Claim C10. A file selection that delivers no file shows the destructive toast
  ``Invalid file'' and changes nothing else; it is the very state a file that is not an
  image gives.
\<close>

theorem no_file_rejected:
  "handleFileSelect k None s = s\<lparr>toasts := toasts s @ [invalid_file_toast]\<rparr> \<and>
   title invalid_file_toast = ''Invalid file'' \<and>
   variant invalid_file_toast = Destructive \<and>
   (\<not> startsWith (file_type f) ''image/'' \<longrightarrow>
      handleFileSelect k (Some f) s = handleFileSelect k None s)"
  by (simp add: handleFileSelect_def show_toast_def invalid_file_toast_def)

theorem no_file_rejected_witness:
  "handleFileSelect Front None initial = initial\<lparr>toasts := [invalid_file_toast]\<rparr> \<and>
   \<not> startsWith (file_type document) ''image/'' \<and>
   handleFileSelect Front (Some document) initial = handleFileSelect Front None initial"
  using no_file_rejected [of Front initial document]
  by (simp add: startsWith_def document_def initial_def)

end
